theory Spec2Isabelle
  imports Main
begin

section \<open>Plugin type-definition synchronisation of the Cordova extension\<close>

text \<open>
  The development follows \<^verbatim>\<open>src/cordova.ts\<close>. Every function of that file that takes part
  in a reconciliation pass is translated below under its own name. The functions of the
  file are procedures: what they do is observable only through the calls they make to the
  console, the telemetry sink, the typings installer and the file system. Each translated
  function therefore returns the list of calls it makes, in program order (type
  \<open>effect list\<close>), and, where the source can throw, a value of \<open>error + unit\<close>.
\<close>

subsection \<open>Data\<close>

text \<open>An entry of \<^verbatim>\<open>pluginTypings.json\<close>: \<^verbatim>\<open>{ "typingFile": "..." }\<close>.\<close>

record TypingDescriptor =
  typingFile :: string

text \<open>
  The catalog object returned by \<^verbatim>\<open>require(PLUGIN_TYPE_DEFS_PATH)\<close>: its own keys, each
  with its descriptor.
\<close>

type_synonym PluginTypings = "string \<Rightarrow> TypingDescriptor option"

text \<open>
  The value of \<^verbatim>\<open>pluginTypings[name]\<close>. The catalog is a plain object, so a name that
  is no key of its own is looked up in \<^verbatim>\<open>Object.prototype\<close>: the names that object
  defines yield a function (or, for \<^verbatim>\<open>__proto__\<close>, the prototype itself), and every
  other name yields \<^verbatim>\<open>undefined\<close>.
\<close>

datatype jsProperty = Descriptor TypingDescriptor | Inherited | Undefined

definition objectPrototypeNames :: "string list" where
  "objectPrototypeNames =
     [''constructor'', ''hasOwnProperty'', ''isPrototypeOf'', ''propertyIsEnumerable'',
      ''toLocaleString'', ''toString'', ''valueOf'', ''__proto__'', ''__defineGetter__'',
      ''__defineSetter__'', ''__lookupGetter__'', ''__lookupSetter__'']"

definition getProperty :: "PluginTypings \<Rightarrow> string \<Rightarrow> jsProperty" where
  "getProperty pluginTypings name =
     (case pluginTypings name of
        Some d \<Rightarrow> Descriptor d
      | None \<Rightarrow> if name \<in> set objectPrototypeNames then Inherited else Undefined)"

text \<open>Truthiness: objects and functions are truthy, \<^verbatim>\<open>undefined\<close> is falsy.\<close>

fun truthy :: "jsProperty \<Rightarrow> bool" where
  "truthy (Descriptor d) = True"
| "truthy Inherited = True"
| "truthy Undefined = False"

text \<open>
  The property \<^verbatim>\<open>typingFile\<close> of a truthy value: the string of a descriptor, and
  \<^verbatim>\<open>undefined\<close> (\<open>None\<close>) for a member of \<^verbatim>\<open>Object.prototype\<close>, which has no such
  property. The source reads it of truthy values only, except in \<^verbatim>\<open>activate\<close>, where
  the read of \<^verbatim>\<open>undefined\<close> is a branch of its own.
\<close>

fun typingFileOfProperty :: "jsProperty \<Rightarrow> string option" where
  "typingFileOfProperty (Descriptor d) = Some (typingFile d)"
| "typingFileOfProperty Inherited = None"

text \<open>The only exception the modelled functions can raise: a property read on \<^verbatim>\<open>undefined\<close>.\<close>

datatype error = TypeError

datatype effect =
    ConsoleError string
  | ConsoleLog string
  | TelemetryInit string
  | TelemetrySend string "(string \<times> string) list"
  | InstallTypings string "string option list"
  | ReadDir string
  | Unlink string
  | CreateFileSystemWatcher string
  | ExtensionServerSetup
  | RegisterCommand string
  | EnsureJsconfig

text \<open>
  \<^item> \<open>TelemetrySend name pii\<close>: \<^verbatim>\<open>Telemetry.send\<close> of an event called \<open>name\<close> whose
    properties set with \<^verbatim>\<open>setPiiProperty\<close> are \<open>pii\<close>;
  \<^item> \<open>InstallTypings dir files\<close>: \<^verbatim>\<open>TsdHelper.installTypings(dir, files)\<close>; an element
    of \<open>files\<close> is a string or \<^verbatim>\<open>undefined\<close> (\<open>None\<close>);
  \<^item> \<open>ReadDir dir\<close>: \<^verbatim>\<open>fs.readdir(dir, callback)\<close>;
  \<^item> \<open>Unlink file\<close>: \<^verbatim>\<open>fs.unlink(file, callback)\<close>;
  \<^item> the remaining constructors stand for the calls of \<^verbatim>\<open>activate\<close> that do not touch
    the typings (watcher creation, extension server, command registration, the
    \<^verbatim>\<open>jsconfig.json\<close> bootstrap).
\<close>

text \<open>
  Everything a pass reads from outside \<^verbatim>\<open>cordova.ts\<close>. The helpers of
  \<^verbatim>\<open>CordovaProjectHelper\<close> live in another module; their results are fields.
  \<^item> \<open>pluginTypingsJson\<close>: the content of \<^verbatim>\<open>pluginTypings.json\<close>, \<open>None\<close> when
    \<^verbatim>\<open>existsSync(PLUGIN_TYPE_DEFS_PATH)\<close> is false;
  \<^item> \<open>getCordovaProjectRoot\<close>: \<^verbatim>\<open>getCordovaProjectRoot(vscode.workspace.rootPath)\<close>,
    \<open>None\<close> for a falsy result;
  \<^item> \<open>getInstalledPlugins\<close>, \<open>getOrCreateTypingsTargetPath\<close>: the helpers of the same name;
  \<^item> \<open>existsSync\<close>: \<^verbatim>\<open>CordovaProjectHelper.existsSync\<close>;
  \<^item> \<open>readdir\<close>: the second argument \<^verbatim>\<open>fs.readdir\<close> hands to its callback, \<open>None\<close> for
    \<^verbatim>\<open>undefined\<close> (the read failed);
  \<^item> \<open>unlinkFails\<close>: whether \<^verbatim>\<open>fs.unlink\<close> hands an error to its callback.
\<close>

record host =
  pluginTypingsJson :: "PluginTypings option"
  getCordovaProjectRoot :: "string option"
  getInstalledPlugins :: "string \<Rightarrow> string list"
  getOrCreateTypingsTargetPath :: "string \<Rightarrow> string"
  existsSync :: "string \<Rightarrow> bool"
  readdir :: "string \<Rightarrow> string list option"
  unlinkFails :: "string \<Rightarrow> bool"

subsection \<open>Library functions used by the source\<close>

text \<open>\<^verbatim>\<open>Array.prototype.indexOf\<close>: the first index of the element, \<open>-1\<close> when absent.\<close>

fun indexOf :: "'a list \<Rightarrow> 'a \<Rightarrow> int" where
  "indexOf [] x = - 1"
| "indexOf (y # ys) x =
     (if y = x then 0 else (let i = indexOf ys x in if i < 0 then - 1 else i + 1))"

text \<open>
  \<^verbatim>\<open>path.resolve(dir, rel)\<close> for an absolute \<open>dir\<close> and a relative \<open>rel\<close> without dot
  segments, and \<^verbatim>\<open>path.relative(from, to)\<close> for a \<open>to\<close> that lies below \<open>from\<close>: the only
  uses the source makes of them. Paths are written with forward slashes.
\<close>

definition pathResolve :: "string \<Rightarrow> string \<Rightarrow> string" where
  "pathResolve dir rel = dir @ ''/'' @ rel"

definition pathRelative :: "string \<Rightarrow> string \<Rightarrow> string" where
  "pathRelative from to =
     (if take (length from + 1) to = from @ ''/'' then drop (length from + 1) to else to)"

text \<open>\<^verbatim>\<open>s.replace(/\\/g, '/')\<close>: every backslash becomes a forward slash.\<close>

definition replaceBackslashes :: "string \<Rightarrow> string" where
  "replaceBackslashes s = map (\<lambda>c. if c = CHR 0x5C then CHR ''/'' else c) s"

text \<open>
  Modelled from the spec: \<^verbatim>\<open>CordovaProjectHelper.getCordovaPluginTypeDefsPath\<close> is
  missing from the source. The specification names the primary scanned folder
  \<^verbatim>\<open><target>/plugins\<close>, \<^verbatim>\<open><target>\<close> being the typings target directory.
\<close>

definition getCordovaPluginTypeDefsPath :: "host \<Rightarrow> string \<Rightarrow> string" where
  "getCordovaPluginTypeDefsPath h projectRoot =
     pathResolve (getOrCreateTypingsTargetPath h projectRoot) ''plugins''"

text \<open>
  Modelled from the spec: \<^verbatim>\<open>CordovaProjectHelper.getIonicPluginTypeDefsPath\<close> is missing
  from the source. The specification names the secondary scanned folder
  \<^verbatim>\<open><target>/ionic\<close>.
\<close>

definition getIonicPluginTypeDefsPath :: "host \<Rightarrow> string \<Rightarrow> string" where
  "getIonicPluginTypeDefsPath h projectRoot =
     pathResolve (getOrCreateTypingsTargetPath h projectRoot) ''ionic''"

subsection \<open>The functions of \<^verbatim>\<open>cordova.ts\<close>\<close>

definition CORDOVA_TYPINGS_QUERYSTRING :: string where
  "CORDOVA_TYPINGS_QUERYSTRING = ''cordova''"

definition getPluginTypingsJson :: "host \<Rightarrow> effect list \<times> PluginTypings option" where
  "getPluginTypingsJson h =
     (case pluginTypingsJson h of
        Some pluginTypings \<Rightarrow> ([], Some pluginTypings)
      | None \<Rightarrow>
          ([ConsoleError
              (''Cordova plugin type declaration mapping file '' @ [CHR 0x22] @
               ''pluginTypings.json'' @ [CHR 0x22] @ '' is missing from the extension folder.'')],
           None))"

text \<open>The test \<^verbatim>\<open>!!pluginTypings[pluginName]\<close> (and \<^verbatim>\<open>if (pluginTypings[pluginName])\<close>).\<close>

definition hasTypings :: "PluginTypings \<Rightarrow> string \<Rightarrow> bool" where
  "hasTypings pluginTypings pluginName = truthy (getProperty pluginTypings pluginName)"

text \<open>\<^verbatim>\<open>pluginTypings[pluginName].typingFile\<close>.\<close>

definition typingFileOf :: "PluginTypings \<Rightarrow> string \<Rightarrow> string option" where
  "typingFileOf pluginTypings pluginName =
     typingFileOfProperty (getProperty pluginTypings pluginName)"

text \<open>
  The result \<open>None\<close> is the \<^verbatim>\<open>undefined\<close> of the bare \<^verbatim>\<open>return;\<close>. An element of the
  array returned is a string or \<^verbatim>\<open>undefined\<close>.
\<close>

definition getNewTypeDefinitions ::
  "host \<Rightarrow> string list \<Rightarrow> effect list \<times> string option list option" where
  "getNewTypeDefinitions h installedPlugins =
     (case getPluginTypingsJson h of
        (es, None) \<Rightarrow> (es, None)
      | (es, Some pluginTypings) \<Rightarrow>
          (es, Some (map (typingFileOf pluginTypings)
                       (filter (hasTypings pluginTypings) installedPlugins))))"

text \<open>
  The \<^verbatim>\<open>filter\<close> callback of \<^verbatim>\<open>addPluginTypeDefinitions\<close> sends a telemetry event for
  every name whose lookup is falsy, so the filter is written as a recursion that returns
  the events together with the names kept. \<^verbatim>\<open>currentTypeDefs\<close> holds strings; the value
  searched in it may be \<^verbatim>\<open>undefined\<close>, which \<^verbatim>\<open>indexOf\<close> never finds.
\<close>

fun typingsToAddFilter :: "PluginTypings \<Rightarrow> string list \<Rightarrow> string list \<Rightarrow> effect list \<times> string list" where
  "typingsToAddFilter pluginTypings currentTypeDefs [] = ([], [])"
| "typingsToAddFilter pluginTypings currentTypeDefs (pluginName # rest) =
     (case typingsToAddFilter pluginTypings currentTypeDefs rest of (es, kept) \<Rightarrow>
        (if hasTypings pluginTypings pluginName then
           (es, if indexOf (map Some currentTypeDefs) (typingFileOf pluginTypings pluginName) < 0
                then pluginName # kept else kept)
         else (TelemetrySend ''unknownPlugin'' [(''plugin'', pluginName)] # es, kept)))"

definition addPluginTypeDefinitions :: "host \<Rightarrow> string \<Rightarrow> string list \<Rightarrow> string list \<Rightarrow> effect list" where
  "addPluginTypeDefinitions h projectRoot installedPlugins currentTypeDefs =
     (case getPluginTypingsJson h of
        (es, None) \<Rightarrow> es
      | (es, Some pluginTypings) \<Rightarrow>
          (case typingsToAddFilter pluginTypings currentTypeDefs installedPlugins of
             (ts, kept) \<Rightarrow>
               es @ ts @
               [InstallTypings (getOrCreateTypingsTargetPath h projectRoot)
                  (map (typingFileOf pluginTypings) kept)]))"

text \<open>
  The \<^verbatim>\<open>forEach\<close> of \<^verbatim>\<open>removePluginTypeDefinitions\<close>. \<open>newTypeDefs\<close> is \<open>None\<close> when the
  caller passes \<^verbatim>\<open>undefined\<close>; \<^verbatim>\<open>newTypeDefs.indexOf\<close> then throws at the first element
  visited, which ends the loop. The callback of \<^verbatim>\<open>fs.unlink\<close> runs later than the loop;
  its log line is placed right after the call it belongs to.
\<close>

fun removePluginTypeDefinitions ::
  "host \<Rightarrow> string \<Rightarrow> string list \<Rightarrow> string option list option \<Rightarrow> effect list \<times> (error + unit)" where
  "removePluginTypeDefinitions h projectRoot [] newTypeDefs = ([], Inr ())"
| "removePluginTypeDefinitions h projectRoot (typeDef # rest) None = ([], Inl TypeError)"
| "removePluginTypeDefinitions h projectRoot (typeDef # rest) (Some new) =
     (if indexOf new (Some typeDef) < 0 then
        (let fileToDelete = pathResolve (getOrCreateTypingsTargetPath h projectRoot) typeDef;
             es = Unlink fileToDelete #
                  (if unlinkFails h fileToDelete
                   then [ConsoleLog (''Failed to delete file '' @ fileToDelete)] else [])
         in case removePluginTypeDefinitions h projectRoot rest (Some new) of
              (es', r) \<Rightarrow> (es @ es', r))
      else removePluginTypeDefinitions h projectRoot rest (Some new))"

definition getRelativeTypeDefinitionFilePath :: "host \<Rightarrow> string \<Rightarrow> string \<Rightarrow> string \<Rightarrow> string" where
  "getRelativeTypeDefinitionFilePath h projectRoot parentPath typeDefinitionFile =
     replaceBackslashes
       (pathRelative (getOrCreateTypingsTargetPath h projectRoot)
          (pathResolve parentPath typeDefinitionFile))"

text \<open>
  The callback of the first \<^verbatim>\<open>fs.readdir\<close>, up to the second \<^verbatim>\<open>fs.readdir\<close>: the value
  it gives \<^verbatim>\<open>currentTypeDefs\<close>.
\<close>

definition cordovaReaddirCallback :: "host \<Rightarrow> string \<Rightarrow> string list option \<Rightarrow> string list" where
  "cordovaReaddirCallback h cordovaProjectRoot cordovaTypeDefs =
     (case cordovaTypeDefs of
        Some l \<Rightarrow>
          map (getRelativeTypeDefinitionFilePath h cordovaProjectRoot
                 (getCordovaPluginTypeDefsPath h cordovaProjectRoot)) l
      | None \<Rightarrow> [])"

text \<open>
  The callback of the second \<^verbatim>\<open>fs.readdir\<close>. \<^verbatim>\<open>currentTypeDefs.concat(...)\<close> builds a new
  array and leaves \<^verbatim>\<open>currentTypeDefs\<close> as it is; the source drops the new array. The
  pair below keeps the expression in the model: its second component is the array
  built, its first the variable the following two calls read.
\<close>

definition ionicReaddirCallback ::
  "host \<Rightarrow> string \<Rightarrow> string list \<Rightarrow> string option list option \<Rightarrow> string list
     \<Rightarrow> string list option \<Rightarrow> effect list \<times> (error + unit)" where
  "ionicReaddirCallback h cordovaProjectRoot installedPlugins newTypeDefs currentTypeDefs ionicTypeDefs =
     (let currentTypeDefs' =
            (case ionicTypeDefs of
               Some l \<Rightarrow>
                 fst (currentTypeDefs,
                      currentTypeDefs @
                      map (getRelativeTypeDefinitionFilePath h cordovaProjectRoot
                             (getIonicPluginTypeDefsPath h cordovaProjectRoot)) l)
             | None \<Rightarrow> currentTypeDefs)
      in case removePluginTypeDefinitions h cordovaProjectRoot currentTypeDefs' newTypeDefs of
           (es, r) \<Rightarrow>
             (addPluginTypeDefinitions h cordovaProjectRoot installedPlugins currentTypeDefs' @ es, r))"

text \<open>
  One pass, run on its own: the two callbacks are run as soon as the reads they wait for
  are issued.
\<close>

definition updatePluginTypeDefinitions :: "host \<Rightarrow> string \<Rightarrow> effect list \<times> (error + unit)" where
  "updatePluginTypeDefinitions h cordovaProjectRoot =
     (let installedPlugins = getInstalledPlugins h cordovaProjectRoot;
          cordovaPluginTypesFolder = getCordovaPluginTypeDefsPath h cordovaProjectRoot;
          ionicPluginTypesFolder = getIonicPluginTypeDefsPath h cordovaProjectRoot
      in case getNewTypeDefinitions h installedPlugins of
           (es, newTypeDefs) \<Rightarrow>
             if \<not> existsSync h cordovaPluginTypesFolder then
               (es @ addPluginTypeDefinitions h cordovaProjectRoot installedPlugins [], Inr ())
             else
               (let currentTypeDefs =
                      cordovaReaddirCallback h cordovaProjectRoot (readdir h cordovaPluginTypesFolder)
                in case ionicReaddirCallback h cordovaProjectRoot installedPlugins newTypeDefs
                          currentTypeDefs (readdir h ionicPluginTypesFolder) of
                     (es', r) \<Rightarrow>
                       (es @ [ReadDir cordovaPluginTypesFolder, ReadDir ionicPluginTypesFolder] @ es',
                        r)))"

text \<open>
  \<^verbatim>\<open>activate\<close>. The pass it starts is recorded with all its calls, as if its callbacks
  had run at once; an exception raised inside those callbacks is raised on a later turn
  of the event loop and is no result of \<^verbatim>\<open>activate\<close>. Reading \<^verbatim>\<open>.typingFile\<close> of a
  missing \<^verbatim>\<open>"cordova"\<close> entry throws.
\<close>

definition activate :: "host \<Rightarrow> effect list \<times> (error + unit)" where
  "activate h =
     (case getCordovaProjectRoot h of
        None \<Rightarrow> ([TelemetryInit ''cordova-tools''], Inr ())
      | Some cordovaProjectRoot \<Rightarrow>
          (let glue =
                 [TelemetryInit ''cordova-tools'',
                  TelemetrySend ''activate'' [],
                  CreateFileSystemWatcher ''**/plugins/fetch.json'',
                  ExtensionServerSetup,
                  RegisterCommand ''cordova.prepare'',
                  RegisterCommand ''cordova.build'',
                  RegisterCommand ''cordova.run'']
           in case getPluginTypingsJson h of
                (es, None) \<Rightarrow> (glue @ es, Inr ())
              | (es, Some pluginTypings) \<Rightarrow>
                  (case getProperty pluginTypings CORDOVA_TYPINGS_QUERYSTRING of
                     Undefined \<Rightarrow> (glue @ es, Inl TypeError)
                   | cordovaTypings \<Rightarrow>
                       (glue @ es @
                        [InstallTypings (getOrCreateTypingsTargetPath h cordovaProjectRoot)
                           [typingFileOfProperty cordovaTypings]] @
                        fst (updatePluginTypeDefinitions h cordovaProjectRoot) @
                        [EnsureJsconfig],
                        Inr ()))))"

subsection \<open>What a pass asks of the installer and of the file system\<close>

fun installedTypings :: "effect list \<Rightarrow> string option list" where
  "installedTypings [] = []"
| "installedTypings (InstallTypings dir fs # es) = fs @ installedTypings es"
| "installedTypings (e # es) = installedTypings es"

fun unlinkedFiles :: "effect list \<Rightarrow> string list" where
  "unlinkedFiles [] = []"
| "unlinkedFiles (Unlink f # es) = f # unlinkedFiles es"
| "unlinkedFiles (e # es) = unlinkedFiles es"

fun readDirs :: "effect list \<Rightarrow> string list" where
  "readDirs [] = []"
| "readDirs (ReadDir d # es) = d # readDirs es"
| "readDirs (e # es) = readDirs es"

fun installCalls :: "effect list \<Rightarrow> nat" where
  "installCalls [] = 0"
| "installCalls (InstallTypings dir fs # es) = Suc (installCalls es)"
| "installCalls (e # es) = installCalls es"

text \<open>
  The value of the local variable \<^verbatim>\<open>currentTypeDefs\<close> that a pass hands to
  \<^verbatim>\<open>addPluginTypeDefinitions\<close> and \<^verbatim>\<open>removePluginTypeDefinitions\<close>: the empty array on
  the branch taken when the primary folder is missing, and otherwise what the callback of
  the first \<^verbatim>\<open>fs.readdir\<close> assigned.
\<close>

definition currentTypeDefsOf :: "host \<Rightarrow> string \<Rightarrow> string list" where
  "currentTypeDefsOf h cordovaProjectRoot =
     (if \<not> existsSync h (getCordovaPluginTypeDefsPath h cordovaProjectRoot) then []
      else cordovaReaddirCallback h cordovaProjectRoot
             (readdir h (getCordovaPluginTypeDefsPath h cordovaProjectRoot)))"

text \<open>The identifiers a full scan of the secondary folder yields.\<close>

definition ionicTypeDefsOf :: "host \<Rightarrow> string \<Rightarrow> string list" where
  "ionicTypeDefsOf h cordovaProjectRoot =
     (case readdir h (getIonicPluginTypeDefsPath h cordovaProjectRoot) of
        Some l \<Rightarrow>
          map (getRelativeTypeDefinitionFilePath h cordovaProjectRoot
                 (getIonicPluginTypeDefsPath h cordovaProjectRoot)) l
      | None \<Rightarrow> [])"

text \<open>
  The snapshot in the words of the specification (\<^verbatim>\<open>DeclaredTypingsScanner.scan\<close>): empty
  when the primary folder does not exist, and otherwise the identifiers found in the
  primary folder followed by those found in the secondary folder, a folder that cannot
  be read counting as empty. It is what the code is compared with; no translated
  function uses it.
\<close>

definition specScan :: "host \<Rightarrow> string \<Rightarrow> string list" where
  "specScan h cordovaProjectRoot =
     (if \<not> existsSync h (getCordovaPluginTypeDefsPath h cordovaProjectRoot) then []
      else currentTypeDefsOf h cordovaProjectRoot @ ionicTypeDefsOf h cordovaProjectRoot)"

text \<open>
  The desired list: what \<^verbatim>\<open>getNewTypeDefinitions\<close> computes from a loaded catalog.
\<close>

definition desiredTypeDefs :: "PluginTypings \<Rightarrow> string list \<Rightarrow> string option list" where
  "desiredTypeDefs pluginTypings installedPlugins =
     map (typingFileOf pluginTypings) (filter (hasTypings pluginTypings) installedPlugins)"

text \<open>The telemetry event sent for a plugin the catalog does not know.\<close>

definition unknownPluginEvent :: "string \<Rightarrow> effect" where
  "unknownPluginEvent pluginName = TelemetrySend ''unknownPlugin'' [(''plugin'', pluginName)]"

subsection \<open>A concrete project\<close>

text \<open>
  A catalog with one plugin typed in the primary folder, one typed in the secondary
  folder and the \<^verbatim>\<open>"cordova"\<close> entry; a project with both plugins and one unknown plugin
  installed, whose primary folder holds \<^verbatim>\<open>device.d.ts\<close> (stale, and not deletable) and
  \<^verbatim>\<open>camera.d.ts\<close>, and whose secondary folder holds \<^verbatim>\<open>keyboard.d.ts\<close> and
  \<^verbatim>\<open>stale.d.ts\<close>.
\<close>

definition exampleCatalog :: PluginTypings where
  "exampleCatalog =
     [''cordova-plugin-camera'' \<mapsto> \<lparr>typingFile = ''plugins/camera.d.ts''\<rparr>,
      ''ionic-plugin-keyboard'' \<mapsto> \<lparr>typingFile = ''ionic/keyboard.d.ts''\<rparr>,
      ''cordova'' \<mapsto> \<lparr>typingFile = ''cordova.d.ts''\<rparr>]"

definition exampleHost :: host where
  "exampleHost =
     \<lparr>pluginTypingsJson = Some exampleCatalog,
      getCordovaProjectRoot = Some ''/app'',
      getInstalledPlugins =
        (\<lambda>r. [''cordova-plugin-camera'', ''my-own-plugin'', ''ionic-plugin-keyboard'']),
      getOrCreateTypingsTargetPath = (\<lambda>r. r @ ''/typings''),
      existsSync = (\<lambda>p. p = ''/app/typings/plugins''),
      readdir =
        (\<lambda>p. if p = ''/app/typings/plugins'' then Some [''device.d.ts'', ''camera.d.ts'']
             else if p = ''/app/typings/ionic'' then Some [''keyboard.d.ts'', ''stale.d.ts'']
             else None),
      unlinkFails = (\<lambda>p. p = ''/app/typings/plugins/device.d.ts'')\<rparr>"


text \<open>The same project when \<^verbatim>\<open>pluginTypings.json\<close> is missing from the extension folder.\<close>

definition missingCatalogHost :: host where
  "missingCatalogHost = exampleHost\<lparr>pluginTypingsJson := None\<rparr>"

text \<open>
  The same project with the camera plugin and a plugin whose identifier is
  \<^verbatim>\<open>constructor\<close>: no key of the catalog, and a name \<^verbatim>\<open>Object.prototype\<close> defines.
\<close>

definition inheritedNameHost :: host where
  "inheritedNameHost =
     exampleHost\<lparr>getInstalledPlugins := (\<lambda>r. [''cordova-plugin-camera'', ''constructor''])\<rparr>"


subsection \<open>Passes on the event loop\<close>

text \<open>
  \<^verbatim>\<open>fs.readdir\<close> returns at once and runs its callback on a later turn of the event loop.
  A pass that found the primary folder is therefore suspended twice, and whatever the
  event loop runs in between runs while the pass is in flight. A suspended pass is the
  callback it waits for, with the variables the callback closes over:
  \<^verbatim>\<open>cordovaProjectRoot\<close>, \<^verbatim>\<open>installedPlugins\<close>, \<^verbatim>\<open>newTypeDefs\<close> and, for the inner
  callback, \<^verbatim>\<open>currentTypeDefs\<close>.
\<close>

datatype pendingCallback =
    CordovaReaddirPending string "string list" "string option list option"
  | IonicReaddirPending string "string list" "string option list option" "string list"

text \<open>
  The body of \<^verbatim>\<open>updatePluginTypeDefinitions\<close> up to its return: the handler the watcher
  runs for a create, change or delete event of \<^verbatim>\<open>plugins/fetch.json\<close>.
\<close>

definition startPass :: "host \<Rightarrow> string \<Rightarrow> effect list \<times> pendingCallback option" where
  "startPass h cordovaProjectRoot =
     (let installedPlugins = getInstalledPlugins h cordovaProjectRoot;
          cordovaPluginTypesFolder = getCordovaPluginTypeDefsPath h cordovaProjectRoot
      in case getNewTypeDefinitions h installedPlugins of
           (es, newTypeDefs) \<Rightarrow>
             if \<not> existsSync h cordovaPluginTypesFolder then
               (es @ addPluginTypeDefinitions h cordovaProjectRoot installedPlugins [], None)
             else
               (es @ [ReadDir cordovaPluginTypesFolder],
                Some (CordovaReaddirPending cordovaProjectRoot installedPlugins newTypeDefs)))"

text \<open>One callback: what it does, what it leaves pending, and whether it threw.\<close>

fun resumePass :: "host \<Rightarrow> pendingCallback \<Rightarrow> effect list \<times> pendingCallback option \<times> (error + unit)" where
  "resumePass h (CordovaReaddirPending cordovaProjectRoot installedPlugins newTypeDefs) =
     ([ReadDir (getIonicPluginTypeDefsPath h cordovaProjectRoot)],
      Some (IonicReaddirPending cordovaProjectRoot installedPlugins newTypeDefs
              (cordovaReaddirCallback h cordovaProjectRoot
                 (readdir h (getCordovaPluginTypeDefsPath h cordovaProjectRoot)))),
      Inr ())"
| "resumePass h (IonicReaddirPending cordovaProjectRoot installedPlugins newTypeDefs currentTypeDefs) =
     (case ionicReaddirCallback h cordovaProjectRoot installedPlugins newTypeDefs currentTypeDefs
             (readdir h (getIonicPluginTypeDefsPath h cordovaProjectRoot)) of
        (es, r) \<Rightarrow> (es, None, r))"

text \<open>
  The extension host between two turns: the passes in flight (oldest first), the calls
  made so far and the exceptions no handler caught.
\<close>

record eventLoop =
  inFlight :: "pendingCallback list"
  performed :: "effect list"
  uncaught :: "error list"

definition idleLoop :: eventLoop where
  "idleLoop = \<lparr>inFlight = [], performed = [], uncaught = []\<rparr>"

text \<open>
  A turn of the event loop: either the watcher reports an event of the manifest, or the
  read that the \<open>i\<close>-th pass in flight waits for completes.
\<close>

datatype loopEvent = ManifestEvent | ReaddirDone nat

fun loopStep :: "host \<Rightarrow> string \<Rightarrow> eventLoop \<Rightarrow> loopEvent \<Rightarrow> eventLoop" where
  "loopStep h cordovaProjectRoot L ManifestEvent =
     (case startPass h cordovaProjectRoot of
        (es, p) \<Rightarrow>
          L\<lparr>inFlight := inFlight L @ (case p of None \<Rightarrow> [] | Some cb \<Rightarrow> [cb]),
            performed := performed L @ es\<rparr>)"
| "loopStep h cordovaProjectRoot L (ReaddirDone i) =
     (if i < length (inFlight L) then
        (case resumePass h (inFlight L ! i) of
           (es, p, r) \<Rightarrow>
             L\<lparr>inFlight :=
                  (case p of
                     None \<Rightarrow> take i (inFlight L) @ drop (Suc i) (inFlight L)
                   | Some cb \<Rightarrow> (inFlight L)[i := cb]),
               performed := performed L @ es,
               uncaught := uncaught L @ (case r of Inl e \<Rightarrow> [e] | Inr u \<Rightarrow> [])\<rparr>)
      else L)"

text \<open>Serialised: at most one pass is in flight.\<close>

definition serialized :: "eventLoop \<Rightarrow> bool" where
  "serialized L = (length (inFlight L) \<le> 1)"

text \<open>
  Another project with the same catalog, plugins and primary folder content, at another
  root, with another typings target directory, an empty secondary folder and no
  deletion that fails.
\<close>

definition otherHost :: host where
  "otherHost =
     exampleHost
       \<lparr>getOrCreateTypingsTargetPath := (\<lambda>r. r @ ''/.vscode/typings''),
        existsSync := (\<lambda>p. p = ''/other/.vscode/typings/plugins''),
        readdir :=
          (\<lambda>p. if p = ''/other/.vscode/typings/plugins''
               then Some [''device.d.ts'', ''camera.d.ts''] else None),
        unlinkFails := (\<lambda>p. False)\<rparr>"


subsection \<open>The typings on disk\<close>











definition exampleDenied :: "string \<Rightarrow> bool" where
  "exampleDenied p = (p = ''/app/typings/plugins/device.d.ts'')"








section \<open>Properties\<close>

subsection \<open>Auxiliary facts\<close>

lemma indexOf_range: "indexOf xs x = - 1 \<or> 0 \<le> indexOf xs x"
  by (induction xs) (auto simp: Let_def)

lemma indexOf_negative_iff: "indexOf xs x < 0 \<longleftrightarrow> x \<notin> set xs"
proof (induction xs)
  case Nil
  show ?case by simp
next
  case (Cons y ys)
  have "indexOf ys x = - 1 \<or> 0 \<le> indexOf ys x" by (rule indexOf_range)
  with Cons show ?case by (auto simp: Let_def)
qed

lemma installedTypings_append:
  "installedTypings (xs @ ys) = installedTypings xs @ installedTypings ys"
  by (induction xs rule: installedTypings.induct) auto

lemma unlinkedFiles_append: "unlinkedFiles (xs @ ys) = unlinkedFiles xs @ unlinkedFiles ys"
  by (induction xs rule: unlinkedFiles.induct) auto

lemma readDirs_append: "readDirs (xs @ ys) = readDirs xs @ readDirs ys"
  by (induction xs rule: readDirs.induct) auto

lemma installCalls_append: "installCalls (xs @ ys) = installCalls xs + installCalls ys"
  by (induction xs rule: installCalls.induct) auto

lemma events_no_requests:
  "installedTypings (map unknownPluginEvent ps) = [] \<and>
   unlinkedFiles (map unknownPluginEvent ps) = [] \<and>
   installCalls (map unknownPluginEvent ps) = 0 \<and>
   readDirs (map unknownPluginEvent ps) = []"
  by (induction ps) (auto simp: unknownPluginEvent_def)

text \<open>The effectful filter: which events it sends and which names it keeps.\<close>

lemma typingsToAddFilter_events:
  "fst (typingsToAddFilter c cur ps) = map unknownPluginEvent (filter (\<lambda>p. \<not> hasTypings c p) ps)"
  by (induction ps) (auto simp: unknownPluginEvent_def split: prod.splits)

lemma typingsToAddFilter_kept:
  "snd (typingsToAddFilter c cur ps) =
     filter (\<lambda>p. hasTypings c p \<and> typingFileOf c p \<notin> Some ` set cur) ps"
  by (induction ps)
     (auto simp: indexOf_negative_iff split: prod.splits)

lemma addPluginTypeDefinitions_loaded:
  assumes "pluginTypingsJson h = Some c"
  shows "addPluginTypeDefinitions h root ps cur =
           map unknownPluginEvent (filter (\<lambda>p. \<not> hasTypings c p) ps) @
           [InstallTypings (getOrCreateTypingsTargetPath h root)
              (map (typingFileOf c)
                 (filter (\<lambda>p. hasTypings c p \<and> typingFileOf c p \<notin> Some ` set cur) ps))]"
proof -
  obtain ts kept where tk: "typingsToAddFilter c cur ps = (ts, kept)"
    by (cases "typingsToAddFilter c cur ps")
  have ts: "map unknownPluginEvent (filter (\<lambda>p. \<not> hasTypings c p) ps) = ts"
    using typingsToAddFilter_events[of c cur ps] tk by simp
  have kept: "filter (\<lambda>p. hasTypings c p \<and> typingFileOf c p \<notin> Some ` set cur) ps = kept"
    using typingsToAddFilter_kept[of c cur ps] tk by simp
  show ?thesis
    unfolding ts kept using assms tk
    by (simp add: addPluginTypeDefinitions_def getPluginTypingsJson_def)
qed

lemma installedTypings_add:
  assumes "pluginTypingsJson h = Some c"
  shows "installedTypings (addPluginTypeDefinitions h root ps cur) =
           map (typingFileOf c) (filter (\<lambda>p. hasTypings c p \<and> typingFileOf c p \<notin> Some ` set cur) ps)"
    and "installCalls (addPluginTypeDefinitions h root ps cur) = 1"
    and "unlinkedFiles (addPluginTypeDefinitions h root ps cur) = []"
    and "readDirs (addPluginTypeDefinitions h root ps cur) = []"
  using assms
  by (simp_all add: addPluginTypeDefinitions_loaded installedTypings_append installCalls_append
      unlinkedFiles_append readDirs_append events_no_requests)


text \<open>The removal loop, when it is given an array.\<close>

lemma removePluginTypeDefinitions_completes:
  "snd (removePluginTypeDefinitions h root cur (Some new)) = Inr ()"
  by (induction cur) (auto simp: Let_def split: prod.splits)

lemma removePluginTypeDefinitions_unlinks:
  "unlinkedFiles (fst (removePluginTypeDefinitions h root cur (Some new))) =
     map (pathResolve (getOrCreateTypingsTargetPath h root))
       (filter (\<lambda>t. Some t \<notin> set new) cur)"
  by (induction cur)
     (auto simp: Let_def indexOf_negative_iff unlinkedFiles_append split: prod.splits)

lemma removePluginTypeDefinitions_no_install:
  "installedTypings (fst (removePluginTypeDefinitions h root cur new)) = [] \<and>
   installCalls (fst (removePluginTypeDefinitions h root cur new)) = 0 \<and>
   readDirs (fst (removePluginTypeDefinitions h root cur new)) = []"
  by (induction h root cur new rule: removePluginTypeDefinitions.induct)
     (auto simp: Let_def installedTypings_append installCalls_append readDirs_append
           split: prod.splits)

text \<open>A pass with the catalog loaded, written out.\<close>

lemma updatePluginTypeDefinitions_loaded:
  assumes "pluginTypingsJson h = Some c"
  shows "updatePluginTypeDefinitions h root =
     (if \<not> existsSync h (getCordovaPluginTypeDefsPath h root) then
        (addPluginTypeDefinitions h root (getInstalledPlugins h root) [], Inr ())
      else
        ([ReadDir (getCordovaPluginTypeDefsPath h root), ReadDir (getIonicPluginTypeDefsPath h root)] @
         addPluginTypeDefinitions h root (getInstalledPlugins h root) (currentTypeDefsOf h root) @
         fst (removePluginTypeDefinitions h root (currentTypeDefsOf h root)
                (Some (desiredTypeDefs c (getInstalledPlugins h root)))),
         Inr ()))"
proof -
  have n: "getNewTypeDefinitions h ps = ([], Some (desiredTypeDefs c ps))" for ps
    using assms by (simp add: getNewTypeDefinitions_def getPluginTypingsJson_def desiredTypeDefs_def)
  show ?thesis
  proof (cases "existsSync h (getCordovaPluginTypeDefsPath h root)")
    case False
    then show ?thesis by (simp add: updatePluginTypeDefinitions_def n Let_def)
  next
    case True
    obtain es r where er: "removePluginTypeDefinitions h root (currentTypeDefsOf h root)
                (Some (desiredTypeDefs c (getInstalledPlugins h root))) = (es, r)"
      by (cases "removePluginTypeDefinitions h root (currentTypeDefsOf h root)
                (Some (desiredTypeDefs c (getInstalledPlugins h root)))")
    have "r = Inr ()"
      using removePluginTypeDefinitions_completes[of h root "currentTypeDefsOf h root"
          "desiredTypeDefs c (getInstalledPlugins h root)"] er by simp
    with True er show ?thesis
      by (simp add: updatePluginTypeDefinitions_def n ionicReaddirCallback_def currentTypeDefsOf_def
          Let_def split: option.splits)
  qed
qed

lemma pass_requests:
  assumes "pluginTypingsJson h = Some c"
  shows "installedTypings (fst (updatePluginTypeDefinitions h root)) =
           map (typingFileOf c)
             (filter (\<lambda>p. hasTypings c p \<and> typingFileOf c p \<notin> Some ` set (currentTypeDefsOf h root))
                (getInstalledPlugins h root))"
    and "installCalls (fst (updatePluginTypeDefinitions h root)) = 1"
    and "unlinkedFiles (fst (updatePluginTypeDefinitions h root)) =
           map (pathResolve (getOrCreateTypingsTargetPath h root))
             (filter (\<lambda>t. Some t \<notin> set (desiredTypeDefs c (getInstalledPlugins h root)))
                (currentTypeDefsOf h root))"
    and "snd (updatePluginTypeDefinitions h root) = Inr ()"
proof -
  note u = updatePluginTypeDefinitions_loaded[OF assms, of root]
  note a = installedTypings_add[OF assms]
  note r = removePluginTypeDefinitions_no_install removePluginTypeDefinitions_unlinks
  have boot: "\<not> existsSync h (getCordovaPluginTypeDefsPath h root) \<Longrightarrow> currentTypeDefsOf h root = []"
    by (simp add: currentTypeDefsOf_def)
  show "installedTypings (fst (updatePluginTypeDefinitions h root)) =
           map (typingFileOf c)
             (filter (\<lambda>p. hasTypings c p \<and> typingFileOf c p \<notin> Some ` set (currentTypeDefsOf h root))
                (getInstalledPlugins h root))"
    using boot by (simp add: u a r installedTypings_append)
  show "installCalls (fst (updatePluginTypeDefinitions h root)) = 1"
    by (simp add: u a r installCalls_append)
  show "unlinkedFiles (fst (updatePluginTypeDefinitions h root)) =
           map (pathResolve (getOrCreateTypingsTargetPath h root))
             (filter (\<lambda>t. Some t \<notin> set (desiredTypeDefs c (getInstalledPlugins h root)))
                (currentTypeDefsOf h root))"
    using boot by (simp add: u a r unlinkedFiles_append)
  show "snd (updatePluginTypeDefinitions h root) = Inr ()"
    by (simp add: u)
qed

lemma exampleHost_catalog: "pluginTypingsJson exampleHost = Some exampleCatalog"
  by (simp add: exampleHost_def)

lemma pathRelative_pathResolve: "pathRelative dir (pathResolve dir rel) = rel"
  by (simp add: pathRelative_def pathResolve_def)


text \<open>A pass without the catalog.\<close>

lemma removePluginTypeDefinitions_undefined:
  "removePluginTypeDefinitions h root cur None = ([], if cur = [] then Inr () else Inl TypeError)"
  by (cases cur) simp_all

lemma pass_missing_catalog:
  assumes "pluginTypingsJson h = None"
  shows "installedTypings (fst (updatePluginTypeDefinitions h root)) = []"
    and "unlinkedFiles (fst (updatePluginTypeDefinitions h root)) = []"
    and "snd (updatePluginTypeDefinitions h root) =
           (if currentTypeDefsOf h root = [] then Inr () else Inl TypeError)"
  using assms
  by (simp_all add: updatePluginTypeDefinitions_def getNewTypeDefinitions_def
      getPluginTypingsJson_def addPluginTypeDefinitions_def ionicReaddirCallback_def
      removePluginTypeDefinitions_undefined currentTypeDefsOf_def Let_def split: option.splits)

text \<open>The concrete project, evaluated.\<close>

lemma exampleHost_current:
  "currentTypeDefsOf exampleHost ''/app'' = [''plugins/device.d.ts'', ''plugins/camera.d.ts'']"
  by (simp add: currentTypeDefsOf_def exampleHost_def getCordovaPluginTypeDefsPath_def
      pathResolve_def cordovaReaddirCallback_def getRelativeTypeDefinitionFilePath_def
      pathRelative_def replaceBackslashes_def)

lemma exampleHost_desired:
  "desiredTypeDefs exampleCatalog (getInstalledPlugins exampleHost ''/app'') =
     [Some ''plugins/camera.d.ts'', Some ''ionic/keyboard.d.ts'']"
  by (simp add: desiredTypeDefs_def exampleHost_def exampleCatalog_def typingFileOf_def
      hasTypings_def getProperty_def objectPrototypeNames_def)

lemma exampleHost_target: "getOrCreateTypingsTargetPath exampleHost ''/app'' = ''/app/typings''"
  by (simp add: exampleHost_def)

text \<open>
  The event loop runs a pass that nothing interrupts to the same calls and the same
  outcome as \<open>updatePluginTypeDefinitions\<close>.
\<close>

lemma loop_runs_pass:
  assumes "existsSync h (getCordovaPluginTypeDefsPath h root)"
  shows "foldl (loopStep h root) idleLoop [ManifestEvent, ReaddirDone 0, ReaddirDone 0] =
           \<lparr>inFlight = [],
            performed = fst (updatePluginTypeDefinitions h root),
            uncaught = (case snd (updatePluginTypeDefinitions h root) of
                          Inl e \<Rightarrow> [e] | Inr u \<Rightarrow> [])\<rparr>"
  using assms
  by (simp add: idleLoop_def startPass_def updatePluginTypeDefinitions_def Let_def
      split: prod.splits option.splits sum.splits)

lemma loop_runs_first_pass:
  assumes "\<not> existsSync h (getCordovaPluginTypeDefsPath h root)"
  shows "loopStep h root idleLoop ManifestEvent =
           \<lparr>inFlight = [], performed = fst (updatePluginTypeDefinitions h root), uncaught = []\<rparr>"
  using assms
  by (simp add: idleLoop_def startPass_def updatePluginTypeDefinitions_def Let_def
      split: prod.splits)

lemma exampleHost_ionic:
  "ionicTypeDefsOf exampleHost ''/app'' = [''ionic/keyboard.d.ts'', ''ionic/stale.d.ts'']"
  by (simp add: ionicTypeDefsOf_def exampleHost_def getIonicPluginTypeDefsPath_def
      pathResolve_def getRelativeTypeDefinitionFilePath_def pathRelative_def
      replaceBackslashes_def)

lemma exampleHost_installs:
  "installedTypings (fst (updatePluginTypeDefinitions exampleHost ''/app'')) =
     [Some ''ionic/keyboard.d.ts'']"
  unfolding pass_requests(1)[OF exampleHost_catalog] exampleHost_current
  by (simp add: exampleHost_def exampleCatalog_def typingFileOf_def hasTypings_def
      getProperty_def objectPrototypeNames_def)

lemma exampleHost_unlinks:
  "unlinkedFiles (fst (updatePluginTypeDefinitions exampleHost ''/app'')) =
     [''/app/typings/plugins/device.d.ts'']"
  unfolding pass_requests(3)[OF exampleHost_catalog] exampleHost_current exampleHost_desired
    exampleHost_target
  by (simp add: pathResolve_def)

text \<open>The removal loop makes no other calls than \<^verbatim>\<open>fs.unlink\<close> and \<^verbatim>\<open>console.log\<close>.\<close>

lemma removePluginTypeDefinitions_effects:
  "e \<in> set (fst (removePluginTypeDefinitions h root cur new)) \<Longrightarrow>
     (\<exists>f. e = Unlink f) \<or> (\<exists>m. e = ConsoleLog m)"
  by (induction h root cur new rule: removePluginTypeDefinitions.induct)
     (auto simp: Let_def split: prod.splits if_splits)


subsection \<open>The two set differences\<close>

text \<open>
  Claim C1, evaluated on the concrete project. Before the pass the two folders hold four
  declaration files, and the desired identifiers are those of the camera and of the
  keyboard typings. The pass hands \<^verbatim>\<open>ionic/keyboard.d.ts\<close> to the installer although it is
  in the snapshot, so what it installs is not the difference of desired and current; and
  it unlinks \<^verbatim>\<open>plugins/device.d.ts\<close> only, not \<^verbatim>\<open>ionic/stale.d.ts\<close>, so what it deletes
  is not the difference of current and desired. Both differences are taken over the array
  \<^verbatim>\<open>currentTypeDefs\<close>, which holds the identifiers of the primary folder only.
\<close>

theorem differences_miss_the_secondary_folder:
  "specScan exampleHost ''/app'' =
     [''plugins/device.d.ts'', ''plugins/camera.d.ts'',
      ''ionic/keyboard.d.ts'', ''ionic/stale.d.ts''] \<and>
   desiredTypeDefs exampleCatalog (getInstalledPlugins exampleHost ''/app'') =
     [Some ''plugins/camera.d.ts'', Some ''ionic/keyboard.d.ts''] \<and>
   installedTypings (fst (updatePluginTypeDefinitions exampleHost ''/app'')) =
     [Some ''ionic/keyboard.d.ts''] \<and>
   set (installedTypings (fst (updatePluginTypeDefinitions exampleHost ''/app''))) \<noteq>
     set (desiredTypeDefs exampleCatalog (getInstalledPlugins exampleHost ''/app'')) -
     Some ` set (specScan exampleHost ''/app'') \<and>
   unlinkedFiles (fst (updatePluginTypeDefinitions exampleHost ''/app'')) =
     [''/app/typings/plugins/device.d.ts''] \<and>
   set (unlinkedFiles (fst (updatePluginTypeDefinitions exampleHost ''/app''))) \<noteq>
     pathResolve (getOrCreateTypingsTargetPath exampleHost ''/app'') `
       {t \<in> set (specScan exampleHost ''/app'').
          Some t \<notin> set (desiredTypeDefs exampleCatalog (getInstalledPlugins exampleHost ''/app''))}"
proof -
  have e: "existsSync exampleHost (getCordovaPluginTypeDefsPath exampleHost ''/app'')"
    by (simp add: exampleHost_def getCordovaPluginTypeDefsPath_def pathResolve_def)
  have s: "specScan exampleHost ''/app'' =
     [''plugins/device.d.ts'', ''plugins/camera.d.ts'',
      ''ionic/keyboard.d.ts'', ''ionic/stale.d.ts'']"
    using e by (simp add: specScan_def exampleHost_current exampleHost_ionic)
  have i: "set [Some ''ionic/keyboard.d.ts''] \<noteq>
           set [Some ''plugins/camera.d.ts'', Some ''ionic/keyboard.d.ts''] -
           Some ` set [''plugins/device.d.ts'', ''plugins/camera.d.ts'',
                        ''ionic/keyboard.d.ts'', ''ionic/stale.d.ts'']"
    by auto
  have "pathResolve ''/app/typings'' ''ionic/stale.d.ts'' \<in>
          pathResolve ''/app/typings'' `
            {t \<in> set [''plugins/device.d.ts'', ''plugins/camera.d.ts'',
                       ''ionic/keyboard.d.ts'', ''ionic/stale.d.ts''].
               Some t \<notin> set [Some ''plugins/camera.d.ts'', Some ''ionic/keyboard.d.ts'']}"
    by (rule imageI) simp
  moreover have "pathResolve ''/app/typings'' ''ionic/stale.d.ts'' \<notin>
                   set [''/app/typings/plugins/device.d.ts'']"
    by (simp add: pathResolve_def)
  ultimately have u: "set [''/app/typings/plugins/device.d.ts''] \<noteq>
          pathResolve ''/app/typings'' `
            {t \<in> set [''plugins/device.d.ts'', ''plugins/camera.d.ts'',
                       ''ionic/keyboard.d.ts'', ''ionic/stale.d.ts''].
               Some t \<notin> set [Some ''plugins/camera.d.ts'', Some ''ionic/keyboard.d.ts'']}"
    by blast
  show ?thesis
    unfolding s exampleHost_desired exampleHost_installs exampleHost_unlinks exampleHost_target
    using i u by simp
qed


subsection \<open>What the two differences depend on\<close>

text \<open>
  Claim C10. The identifiers a pass hands to the installer and the identifiers of the
  files it unlinks are determined by three values: the catalog, the list of installed
  plugins and the array \<^verbatim>\<open>currentTypeDefs\<close>. Two passes that agree on these three agree
  on both lists, whatever else differs between them (project root, target directory,
  content of the secondary folder, outcome of the deletions).
\<close>

theorem diff_depends_on_three_inputs_only:
  assumes "pluginTypingsJson h1 = pluginTypingsJson h2"
      and "getInstalledPlugins h1 root1 = getInstalledPlugins h2 root2"
      and "currentTypeDefsOf h1 root1 = currentTypeDefsOf h2 root2"
  shows "installedTypings (fst (updatePluginTypeDefinitions h1 root1)) =
           installedTypings (fst (updatePluginTypeDefinitions h2 root2)) \<and>
         map (pathRelative (getOrCreateTypingsTargetPath h1 root1))
             (unlinkedFiles (fst (updatePluginTypeDefinitions h1 root1))) =
         map (pathRelative (getOrCreateTypingsTargetPath h2 root2))
             (unlinkedFiles (fst (updatePluginTypeDefinitions h2 root2)))"
proof (cases "pluginTypingsJson h2")
  case None
  then have "pluginTypingsJson h1 = None" using assms(1) by simp
  with None show ?thesis by (simp add: pass_missing_catalog)
next
  case (Some c)
  then have c1: "pluginTypingsJson h1 = Some c" using assms(1) by simp
  show ?thesis
    unfolding pass_requests(1,3)[OF c1] pass_requests(1,3)[OF Some] assms(2,3)
    by (simp add: o_def pathRelative_pathResolve)
qed

theorem diff_depends_on_three_inputs_only_witness:
  "pluginTypingsJson exampleHost = pluginTypingsJson otherHost \<and>
   getInstalledPlugins exampleHost ''/app'' = getInstalledPlugins otherHost ''/other'' \<and>
   currentTypeDefsOf exampleHost ''/app'' = currentTypeDefsOf otherHost ''/other'' \<and>
   installedTypings (fst (updatePluginTypeDefinitions exampleHost ''/app'')) =
     installedTypings (fst (updatePluginTypeDefinitions otherHost ''/other'')) \<and>
   map (pathRelative (getOrCreateTypingsTargetPath exampleHost ''/app''))
       (unlinkedFiles (fst (updatePluginTypeDefinitions exampleHost ''/app''))) =
   map (pathRelative (getOrCreateTypingsTargetPath otherHost ''/other''))
       (unlinkedFiles (fst (updatePluginTypeDefinitions otherHost ''/other'')))"
proof -
  have a: "pluginTypingsJson exampleHost = pluginTypingsJson otherHost"
    by (simp add: otherHost_def exampleHost_def)
  have b: "getInstalledPlugins exampleHost ''/app'' = getInstalledPlugins otherHost ''/other''"
    by (simp add: otherHost_def exampleHost_def)
  have "currentTypeDefsOf otherHost ''/other'' = [''plugins/device.d.ts'', ''plugins/camera.d.ts'']"
    by (simp add: currentTypeDefsOf_def otherHost_def exampleHost_def getCordovaPluginTypeDefsPath_def
        pathResolve_def cordovaReaddirCallback_def getRelativeTypeDefinitionFilePath_def
        pathRelative_def replaceBackslashes_def)
  then have c: "currentTypeDefsOf exampleHost ''/app'' = currentTypeDefsOf otherHost ''/other''"
    by (simp add: exampleHost_current)
  show ?thesis
    using a b c diff_depends_on_three_inputs_only[OF a b c] by simp
qed


subsection \<open>The first pass of a project\<close>



subsection \<open>Plugins the catalog does not know\<close>

lemma filter_remove_trace:
  "filter (\<lambda>e. e \<noteq> unknownPluginEvent p) (fst (removePluginTypeDefinitions h root cur new)) =
     fst (removePluginTypeDefinitions h root cur new)"
proof (rule filter_True, rule ballI)
  fix e assume "e \<in> set (fst (removePluginTypeDefinitions h root cur new))"
  then have "(\<exists>f. e = Unlink f) \<or> (\<exists>m. e = ConsoleLog m)"
    by (rule removePluginTypeDefinitions_effects)
  then show "e \<noteq> unknownPluginEvent p" by (auto simp: unknownPluginEvent_def)
qed

lemma filter_unknown_events:
  "filter (\<lambda>e. e \<noteq> unknownPluginEvent p) (map unknownPluginEvent qs) =
     map unknownPluginEvent (removeAll p qs)"
  by (induction qs) (auto simp: unknownPluginEvent_def)

lemma filter_add_trace:
  assumes "pluginTypingsJson h = Some c" and "\<not> hasTypings c p"
  shows "filter (\<lambda>e. e \<noteq> unknownPluginEvent p) (addPluginTypeDefinitions h root ps cur) =
           addPluginTypeDefinitions h root (removeAll p ps) cur"
proof -
  have k: "filter (\<lambda>q. hasTypings c q \<and> typingFileOf c q \<notin> Some ` set cur) (removeAll p ps) =
           filter (\<lambda>q. hasTypings c q \<and> typingFileOf c q \<notin> Some ` set cur) ps"
    using assms(2) by (induction ps) auto
  have u: "filter (\<lambda>q. \<not> hasTypings c q) (removeAll p ps) = removeAll p (filter (\<lambda>q. \<not> hasTypings c q) ps)"
    by (induction ps) auto
  have i: "InstallTypings dir fs \<noteq> unknownPluginEvent p" for dir fs
    by (simp add: unknownPluginEvent_def)
  show ?thesis
    unfolding addPluginTypeDefinitions_loaded[OF assms(1)] k u
    by (simp add: filter_unknown_events i)
qed

lemma desiredTypeDefs_unknown:
  "\<not> hasTypings c p \<Longrightarrow> desiredTypeDefs c (removeAll p ps) = desiredTypeDefs c ps"
  by (induction ps) (auto simp: desiredTypeDefs_def)

text \<open>
  A name whose lookup in the catalog is \<^verbatim>\<open>undefined\<close> adds nothing to the desired list;
  the pass completes; apart from the telemetry events \<^verbatim>\<open>unknownPlugin\<close> that carry the
  name as a PII property, the pass makes exactly the calls it makes for the installed
  list with the name taken out; and when the name is installed that event is sent.
\<close>

lemma undefined_lookup_is_only_reported:
  assumes "pluginTypingsJson h = Some pluginTypings" and "\<not> hasTypings pluginTypings p"
  shows "let ps = getInstalledPlugins h root;
             h' = h\<lparr>getInstalledPlugins := (\<lambda>r. removeAll p (getInstalledPlugins h r))\<rparr>
         in desiredTypeDefs pluginTypings ps = desiredTypeDefs pluginTypings (removeAll p ps) \<and>
            snd (updatePluginTypeDefinitions h root) = Inr () \<and>
            filter (\<lambda>e. e \<noteq> unknownPluginEvent p) (fst (updatePluginTypeDefinitions h root)) =
              fst (updatePluginTypeDefinitions h' root) \<and>
            (p \<in> set ps \<longrightarrow> unknownPluginEvent p \<in> set (fst (updatePluginTypeDefinitions h root)))"
proof -
  define h' where "h' = h\<lparr>getInstalledPlugins := (\<lambda>r. removeAll p (getInstalledPlugins h r))\<rparr>"
  have c': "pluginTypingsJson h' = Some pluginTypings"
    using assms(1) by (simp add: h'_def)
  have rel: "getRelativeTypeDefinitionFilePath h' root = getRelativeTypeDefinitionFilePath h root"
    by (intro ext) (simp add: getRelativeTypeDefinitionFilePath_def h'_def)
  have dirs: "getCordovaPluginTypeDefsPath h' root = getCordovaPluginTypeDefsPath h root"
       "getIonicPluginTypeDefsPath h' root = getIonicPluginTypeDefsPath h root"
    by (simp_all add: h'_def getCordovaPluginTypeDefsPath_def getIonicPluginTypeDefsPath_def)
  have ex: "existsSync h' = existsSync h" and rd: "readdir h' = readdir h"
    by (simp_all add: h'_def)
  have cur: "currentTypeDefsOf h' root = currentTypeDefsOf h root"
    unfolding currentTypeDefsOf_def cordovaReaddirCallback_def dirs rel ex rd by (rule refl)
  have ps': "getInstalledPlugins h' root = removeAll p (getInstalledPlugins h root)"
    by (simp add: h'_def)
  have add': "addPluginTypeDefinitions h' root qs cur = addPluginTypeDefinitions h root qs cur"
    for qs cur
    unfolding addPluginTypeDefinitions_loaded[OF assms(1)] addPluginTypeDefinitions_loaded[OF c']
    by (simp add: h'_def)
  have rem': "removePluginTypeDefinitions h' root cur (Some new) =
              removePluginTypeDefinitions h root cur (Some new)"
    for cur new
    by (induction cur) (simp_all add: h'_def Let_def)
  have d: "desiredTypeDefs pluginTypings (removeAll p (getInstalledPlugins h root)) =
           desiredTypeDefs pluginTypings (getInstalledPlugins h root)"
    using assms(2) by (simp add: desiredTypeDefs_unknown)
  have readdir_not_event: "ReadDir dir \<noteq> unknownPluginEvent p" for dir
    by (simp add: unknownPluginEvent_def)
  have tr: "filter (\<lambda>e. e \<noteq> unknownPluginEvent p) (fst (updatePluginTypeDefinitions h root)) =
              fst (updatePluginTypeDefinitions h' root)"
    unfolding updatePluginTypeDefinitions_loaded[OF assms(1)]
      updatePluginTypeDefinitions_loaded[OF c'] ex dirs cur ps' add' rem' d
    by (simp add: filter_add_trace[OF assms] filter_remove_trace readdir_not_event)
  have rep: "unknownPluginEvent p \<in> set (fst (updatePluginTypeDefinitions h root))"
    if "p \<in> set (getInstalledPlugins h root)"
    using that assms(2)
    by (simp add: updatePluginTypeDefinitions_loaded[OF assms(1)]
        addPluginTypeDefinitions_loaded[OF assms(1)])
  show ?thesis
    using d tr rep pass_requests(4)[OF assms(1), of root]
    by (simp add: Let_def h'_def)
qed

text \<open>
  Claim C6, evaluated on the concrete project with a plugin called \<^verbatim>\<open>constructor\<close>
  installed. The name is no key of the catalog, yet \<^verbatim>\<open>pluginTypings["constructor"]\<close> is
  the function the catalog object inherits, which is truthy: the plugin passes both
  filters, its \<^verbatim>\<open>typingFile\<close> (\<^verbatim>\<open>undefined\<close>) enters the desired list and is handed to
  the installer, and no \<^verbatim>\<open>unknownPlugin\<close> event is sent for it. The comment on the
  telemetry branch says that a plugin the extension does not know is collected.
\<close>

theorem inherited_name_is_not_reported:
  "exampleCatalog ''constructor'' = None \<and>
   hasTypings exampleCatalog ''constructor'' \<and>
   desiredTypeDefs exampleCatalog (getInstalledPlugins inheritedNameHost ''/app'') =
     [Some ''plugins/camera.d.ts'', None] \<and>
   updatePluginTypeDefinitions inheritedNameHost ''/app'' =
     ([ReadDir ''/app/typings/plugins'', ReadDir ''/app/typings/ionic'',
       InstallTypings ''/app/typings'' [None],
       Unlink ''/app/typings/plugins/device.d.ts'',
       ConsoleLog ''Failed to delete file /app/typings/plugins/device.d.ts''],
      Inr ()) \<and>
   unknownPluginEvent ''constructor''
     \<notin> set (fst (updatePluginTypeDefinitions inheritedNameHost ''/app''))"
proof -
  have k: "exampleCatalog ''constructor'' = None"
    by (simp add: exampleCatalog_def)
  have t: "hasTypings exampleCatalog ''constructor''"
    by (simp add: hasTypings_def getProperty_def k objectPrototypeNames_def)
  have d: "desiredTypeDefs exampleCatalog (getInstalledPlugins inheritedNameHost ''/app'') =
     [Some ''plugins/camera.d.ts'', None]"
    by code_simp
  have u: "updatePluginTypeDefinitions inheritedNameHost ''/app'' =
     ([ReadDir ''/app/typings/plugins'', ReadDir ''/app/typings/ionic'',
       InstallTypings ''/app/typings'' [None],
       Unlink ''/app/typings/plugins/device.d.ts'',
       ConsoleLog ''Failed to delete file /app/typings/plugins/device.d.ts''],
      Inr ())"
    by code_simp
  show ?thesis
    unfolding u using k t d by (simp add: unknownPluginEvent_def)
qed


subsection \<open>Deletions that fail\<close>

text \<open>
  Claim C7. Whatever deletions fail (\<open>fails\<close> is any set of paths for which
  \<^verbatim>\<open>fs.unlink\<close> reports an error), the removal loop completes, it calls \<^verbatim>\<open>fs.unlink\<close> on
  every stale file, in order, the files after a failing one included, and it logs a line
  for each deletion that failed. With the catalog loaded the whole pass completes.
\<close>

theorem failed_deletion_is_isolated:
  "let h' = h\<lparr>unlinkFails := fails\<rparr>;
       target = getOrCreateTypingsTargetPath h projectRoot;
       stale = filter (\<lambda>typeDef. Some typeDef \<notin> set newTypeDefs) currentTypeDefs;
       es = fst (removePluginTypeDefinitions h' projectRoot currentTypeDefs (Some newTypeDefs))
   in snd (removePluginTypeDefinitions h' projectRoot currentTypeDefs (Some newTypeDefs)) = Inr () \<and>
      unlinkedFiles es = map (pathResolve target) stale \<and>
      (\<forall>typeDef \<in> set stale.
         fails (pathResolve target typeDef) \<longrightarrow>
         ConsoleLog (''Failed to delete file '' @ pathResolve target typeDef) \<in> set es) \<and>
      (pluginTypingsJson h \<noteq> None \<longrightarrow> snd (updatePluginTypeDefinitions h' projectRoot) = Inr ())"
proof -
  define h' where "h' = h\<lparr>unlinkFails := fails\<rparr>"
  have t: "getOrCreateTypingsTargetPath h' projectRoot = getOrCreateTypingsTargetPath h projectRoot"
    by (simp add: h'_def)
  have logs: "t \<in> set cur \<Longrightarrow> Some t \<notin> set new \<Longrightarrow>
      unlinkFails h' (pathResolve (getOrCreateTypingsTargetPath h' projectRoot) t) \<Longrightarrow>
      ConsoleLog (''Failed to delete file '' @ pathResolve (getOrCreateTypingsTargetPath h' projectRoot) t)
        \<in> set (fst (removePluginTypeDefinitions h' projectRoot cur (Some new)))" for t cur new
    by (induction cur) (auto simp: Let_def indexOf_negative_iff split: prod.splits)
  have pass: "snd (updatePluginTypeDefinitions h' projectRoot) = Inr ()" if "pluginTypingsJson h \<noteq> None"
  proof -
    from that obtain c where "pluginTypingsJson h' = Some c" by (auto simp: h'_def)
    then show ?thesis by (rule pass_requests(4))
  qed
  have f: "unlinkFails h' = fails" by (simp add: h'_def)
  show ?thesis
    using logs[unfolded t f] pass
      removePluginTypeDefinitions_unlinks[of h' projectRoot currentTypeDefs newTypeDefs]
      removePluginTypeDefinitions_completes[of h' projectRoot currentTypeDefs newTypeDefs]
    unfolding t by (simp add: Let_def h'_def[symmetric])
qed

theorem failed_deletion_is_isolated_witness:
  "(let es = fst (removePluginTypeDefinitions (exampleHost\<lparr>unlinkFails := exampleDenied\<rparr>) ''/app''
                   [''plugins/device.d.ts'', ''plugins/old.d.ts'', ''plugins/camera.d.ts'']
                   (Some [Some ''plugins/camera.d.ts'', Some ''ionic/keyboard.d.ts'']))
    in exampleDenied ''/app/typings/plugins/device.d.ts'' \<and>
       unlinkedFiles es = [''/app/typings/plugins/device.d.ts'', ''/app/typings/plugins/old.d.ts''] \<and>
       ConsoleLog ''Failed to delete file /app/typings/plugins/device.d.ts'' \<in> set es) \<and>
   pluginTypingsJson exampleHost \<noteq> None \<and>
   snd (updatePluginTypeDefinitions (exampleHost\<lparr>unlinkFails := exampleDenied\<rparr>) ''/app'') = Inr ()"
  using failed_deletion_is_isolated[where h = exampleHost and fails = exampleDenied
          and projectRoot = "''/app''"
          and newTypeDefs = "[Some ''plugins/camera.d.ts'', Some ''ionic/keyboard.d.ts'']"
          and currentTypeDefs = "[''plugins/device.d.ts'', ''plugins/old.d.ts'', ''plugins/camera.d.ts'']"]
        exampleHost_catalog
  by (simp add: Let_def exampleHost_target exampleDenied_def pathResolve_def)


subsection \<open>The secondary folder\<close>

text \<open>
  Claim C2, evaluated on the concrete project. The secondary folder holds
  \<^verbatim>\<open>keyboard.d.ts\<close> and \<^verbatim>\<open>stale.d.ts\<close> and the pass reads it, yet the array both
  differences are taken over holds the identifiers of the primary folder only:
  \<^verbatim>\<open>ionic/keyboard.d.ts\<close>, desired and present, is handed to the installer again, and
  \<^verbatim>\<open>ionic/stale.d.ts\<close>, present and not desired, is not unlinked.
\<close>

theorem ionic_scan_is_dropped:
  "readDirs (fst (updatePluginTypeDefinitions exampleHost ''/app'')) =
     [''/app/typings/plugins'', ''/app/typings/ionic''] \<and>
   ionicTypeDefsOf exampleHost ''/app'' = [''ionic/keyboard.d.ts'', ''ionic/stale.d.ts''] \<and>
   currentTypeDefsOf exampleHost ''/app'' = [''plugins/device.d.ts'', ''plugins/camera.d.ts''] \<and>
   desiredTypeDefs exampleCatalog (getInstalledPlugins exampleHost ''/app'') =
     [Some ''plugins/camera.d.ts'', Some ''ionic/keyboard.d.ts''] \<and>
   installedTypings (fst (updatePluginTypeDefinitions exampleHost ''/app'')) =
     [Some ''ionic/keyboard.d.ts''] \<and>
   unlinkedFiles (fst (updatePluginTypeDefinitions exampleHost ''/app'')) =
     [''/app/typings/plugins/device.d.ts'']"
proof -
  have i: "ionicTypeDefsOf exampleHost ''/app'' = [''ionic/keyboard.d.ts'', ''ionic/stale.d.ts'']"
    by (simp add: ionicTypeDefsOf_def exampleHost_def getIonicPluginTypeDefsPath_def
      pathResolve_def getRelativeTypeDefinitionFilePath_def
      pathRelative_def replaceBackslashes_def)
  have a: "installedTypings (fst (updatePluginTypeDefinitions exampleHost ''/app'')) =
     [Some ''ionic/keyboard.d.ts'']"
    unfolding pass_requests(1)[OF exampleHost_catalog] exampleHost_current
    by (simp add: exampleHost_def exampleCatalog_def typingFileOf_def hasTypings_def
        getProperty_def objectPrototypeNames_def)
  have u: "unlinkedFiles (fst (updatePluginTypeDefinitions exampleHost ''/app'')) =
     [''/app/typings/plugins/device.d.ts'']"
    unfolding pass_requests(3)[OF exampleHost_catalog] exampleHost_current exampleHost_desired
      exampleHost_target
    by (simp add: pathResolve_def)
  have e: "existsSync exampleHost (getCordovaPluginTypeDefsPath exampleHost ''/app'')"
    by (simp add: exampleHost_def getCordovaPluginTypeDefsPath_def pathResolve_def)
  have r: "readDirs (fst (updatePluginTypeDefinitions exampleHost ''/app'')) =
     [''/app/typings/plugins'', ''/app/typings/ionic'']"
    using e
    by (simp add: updatePluginTypeDefinitions_loaded[OF exampleHost_catalog] readDirs_append
        installedTypings_add(4)[OF exampleHost_catalog] removePluginTypeDefinitions_no_install
        getCordovaPluginTypeDefsPath_def getIonicPluginTypeDefsPath_def exampleHost_target
        pathResolve_def)
  show ?thesis using r i a u exampleHost_current exampleHost_desired by simp
qed

subsection \<open>The catalog is missing\<close>

text \<open>
  Claim C3, evaluated on the concrete project without its catalog. The pass asks the
  installer for nothing and unlinks nothing, but it does not complete: the removal loop
  reads \<^verbatim>\<open>indexOf\<close> of \<^verbatim>\<open>undefined\<close> at the first file of the primary folder. The
  exception is raised inside the callback of \<^verbatim>\<open>fs.readdir\<close>, where nothing catches it.
  The watcher that starts such a pass is registered before \<^verbatim>\<open>activate\<close> looks for the
  catalog, so a manifest event reaches this state.
\<close>

theorem missing_catalog_pass_throws:
  "snd (updatePluginTypeDefinitions missingCatalogHost ''/app'') = Inl TypeError \<and>
   installedTypings (fst (updatePluginTypeDefinitions missingCatalogHost ''/app'')) = [] \<and>
   unlinkedFiles (fst (updatePluginTypeDefinitions missingCatalogHost ''/app'')) = [] \<and>
   uncaught (foldl (loopStep missingCatalogHost ''/app'') idleLoop
               [ManifestEvent, ReaddirDone 0, ReaddirDone 0]) = [TypeError]"
proof -
  have m: "pluginTypingsJson missingCatalogHost = None"
    by (simp add: missingCatalogHost_def)
  have c: "currentTypeDefsOf missingCatalogHost ''/app'' =
          [''plugins/device.d.ts'', ''plugins/camera.d.ts'']"
    by (simp add: missingCatalogHost_def currentTypeDefsOf_def exampleHost_def
        getCordovaPluginTypeDefsPath_def pathResolve_def cordovaReaddirCallback_def
        getRelativeTypeDefinitionFilePath_def pathRelative_def replaceBackslashes_def)
  have e: "existsSync missingCatalogHost (getCordovaPluginTypeDefsPath missingCatalogHost ''/app'')"
    by (simp add: missingCatalogHost_def exampleHost_def getCordovaPluginTypeDefsPath_def
        pathResolve_def)
  have l: "uncaught (foldl (loopStep missingCatalogHost ''/app'') idleLoop
               [ManifestEvent, ReaddirDone 0, ReaddirDone 0]) =
           (case snd (updatePluginTypeDefinitions missingCatalogHost ''/app'') of
              Inl e \<Rightarrow> [e] | Inr u \<Rightarrow> [])"
    unfolding loop_runs_pass[OF e] by simp
  show ?thesis
    unfolding l using c by (simp add: pass_missing_catalog[OF m])
qed


subsection \<open>Activation\<close>

text \<open>
  Claim C8. When \<^verbatim>\<open>activate\<close> finds a Cordova project root and loads a catalog with the
  \<^verbatim>\<open>"cordova"\<close> entry, it completes and calls the installer with the typings target
  directory and the one-element list holding that entry's typing file, whatever list of
  installed plugins the project has.
\<close>

theorem activation_installs_cordova_typings:
  assumes "getCordovaProjectRoot h = Some cordovaProjectRoot"
      and "pluginTypingsJson h = Some pluginTypings"
      and "pluginTypings CORDOVA_TYPINGS_QUERYSTRING = Some d"
  shows "let h' = h\<lparr>getInstalledPlugins := installed\<rparr>
         in snd (activate h') = Inr () \<and>
            InstallTypings (getOrCreateTypingsTargetPath h cordovaProjectRoot)
                [Some (typingFile d)]
              \<in> set (fst (activate h'))"
  using assms by (simp add: activate_def getPluginTypingsJson_def getProperty_def Let_def)

theorem activation_installs_cordova_typings_witness:
  "getCordovaProjectRoot exampleHost = Some ''/app'' \<and>
   pluginTypingsJson exampleHost = Some exampleCatalog \<and>
   exampleCatalog CORDOVA_TYPINGS_QUERYSTRING = Some \<lparr>typingFile = ''cordova.d.ts''\<rparr> \<and>
   snd (activate (exampleHost\<lparr>getInstalledPlugins := (\<lambda>r. [])\<rparr>)) = Inr () \<and>
   InstallTypings ''/app/typings'' [Some ''cordova.d.ts'']
     \<in> set (fst (activate (exampleHost\<lparr>getInstalledPlugins := (\<lambda>r. [])\<rparr>)))"
proof -
  have r: "getCordovaProjectRoot exampleHost = Some ''/app''"
    by (simp add: exampleHost_def)
  have k: "exampleCatalog CORDOVA_TYPINGS_QUERYSTRING = Some \<lparr>typingFile = ''cordova.d.ts''\<rparr>"
    by (simp add: exampleCatalog_def CORDOVA_TYPINGS_QUERYSTRING_def)
  show ?thesis
    using r k exampleHost_catalog
      activation_installs_cordova_typings[OF r exampleHost_catalog k, of "\<lambda>r. []"]
    by (simp add: Let_def exampleHost_target)
qed


subsection \<open>Passes that overlap\<close>

lemma manifest_event_in_flight:
  "length (inFlight (loopStep h root L ManifestEvent)) =
     length (inFlight L) + (if existsSync h (getCordovaPluginTypeDefsPath h root) then 1 else 0)"
  by (simp add: startPass_def Let_def split: prod.splits)

text \<open>
  Claim C9 fails on the concrete project: after two events of the manifest, with no
  directory read completed in between, two passes over the root \<^verbatim>\<open>/app\<close> are in flight.
\<close>

theorem two_events_two_passes_in_flight:
  "\<not> serialized (foldl (loopStep exampleHost ''/app'') idleLoop [ManifestEvent, ManifestEvent])"
proof -
  have e: "existsSync exampleHost (getCordovaPluginTypeDefsPath exampleHost ''/app'')"
    by (simp add: exampleHost_def getCordovaPluginTypeDefsPath_def pathResolve_def)
  have "length (inFlight (foldl (loopStep exampleHost ''/app'') idleLoop
                            [ManifestEvent, ManifestEvent])) = 2"
    using e by (simp add: manifest_event_in_flight idleLoop_def del: loopStep.simps)
  then show ?thesis by (simp add: serialized_def)
qed

text \<open>
  Claim C9 as amended. Nothing serialises the passes: the handler of a manifest event
  starts a pass whatever passes are in flight. When the primary folder exists the new pass
  stays in flight until its directory reads complete, so \<open>n\<close> events that arrive before
  any read completes add \<open>n\<close> passes over the same root to those in flight; when the
  primary folder is missing the pass ends inside the handler and adds none.
\<close>

theorem manifest_events_start_passes_at_once:
  "length (inFlight (foldl (loopStep h root) L (replicate n ManifestEvent))) =
     length (inFlight L) + (if existsSync h (getCordovaPluginTypeDefsPath h root) then n else 0)"
proof (induction n arbitrary: L)
  case 0
  show ?case by simp
next
  case (Suc n)
  show ?case
    unfolding replicate_Suc foldl_Cons Suc.IH manifest_event_in_flight by simp
qed

theorem manifest_events_start_passes_at_once_witness:
  "existsSync exampleHost (getCordovaPluginTypeDefsPath exampleHost ''/app'') \<and>
   length (inFlight (foldl (loopStep exampleHost ''/app'') idleLoop (replicate 3 ManifestEvent))) = 3"
proof -
  have e: "existsSync exampleHost (getCordovaPluginTypeDefsPath exampleHost ''/app'')"
    by (simp add: exampleHost_def getCordovaPluginTypeDefsPath_def pathResolve_def)
  show ?thesis
    using e manifest_events_start_passes_at_once[of exampleHost "''/app''" idleLoop 3]
    by (simp add: idleLoop_def)
qed


subsection \<open>Two passes in a row\<close>
























end
